theory Spec2Isabelle
  imports Complex_Main
begin

section \<open>DroneControl: the DroneComm class of comm.py\<close>

text \<open>
  The class \<^verbatim>\<open>DroneComm\<close> of \<^verbatim>\<open>src/DroneControl/comm.py\<close> sends attitude commands as PWM
  pulse widths through an Adafruit PCA9685 generator and reads attitude telemetry from a
  MultiWii flight controller over a serial link.

  Modelling decisions.
  \<^item> Python floats are idealised as \<^typ>\<open>real\<close>: comparison, addition, division and
    multiplication are exact. NaN, infinities and binary rounding error are outside the model.
  \<^item> The file is Python 2 code (\<^verbatim>\<open>from __future__ import division\<close>; the sibling script
    \<^verbatim>\<open>sonar_SR04.py\<close> uses the print statement), so \<^verbatim>\<open>round\<close> rounds halves away from
    zero. Python 3 rounds halves to even; the two differ on exact ties only.
  \<^item> Every effect on the outside world (PWM generator, serial link, standard output) is an
    \<open>event\<close> appended to the \<open>trace\<close> of the state, in program order.
  \<^item> A raised exception is a value \<open>Inl e\<close>; a normal return is \<open>Inr\<close>.
  \<^item> \<^verbatim>\<open>MultiWii\<close> objects live in a store (\<open>links\<close>), and \<^verbatim>\<open>self.board\<close> is a
    reference into it, so that replacing the reference and closing an object are distinct.
\<close>

subsection \<open>Errors, constants\<close>

datatype error = ZeroDivisionError | AttributeError

type_synonym 'a result = "error + 'a"

definition MIN_WIDTH :: real where
  "MIN_WIDTH = 11 / 10000"

definition MID_WIDTH :: real where
  "MID_WIDTH = 15 / 10000"

definition MAX_WIDTH :: real where
  "MAX_WIDTH = 19 / 10000"

definition TICKS :: real where
  "TICKS = 4096"

definition ROLL_CHANNEL :: int where
  "ROLL_CHANNEL = 3"

definition PITCH_CHANNEL :: int where
  "PITCH_CHANNEL = 2"

definition YAW_CHANNEL :: int where
  "YAW_CHANNEL = 1"

definition DEFAULT_K_PERIOD :: real where
  "DEFAULT_K_PERIOD = (23 / 1000) / (22 / 1000)"

subsection \<open>The outside world\<close>

text \<open>The attitude dictionary of a \<^verbatim>\<open>MultiWii\<close> object, restricted to the three keys
  that \<^verbatim>\<open>comm.py\<close> reads.\<close>

record attitude =
  angx :: real
  angy :: real
  heading :: real

text \<open>A \<^verbatim>\<open>MultiWii\<close> object: the serial port it was opened on, whether
  \<^verbatim>\<open>closeSerial\<close> has been called on it, and its attitude dictionary.\<close>

record link =
  port :: string
  is_open :: bool
  attitude :: attitude

datatype event =
    SetPwmFreq real
  | SetPwidth int real
  | SetPwm int int int
  | Print string
  | OpenSerial nat string
  | GetData nat
  | CloseSerial nat

text \<open>
  \<open>SetPwmFreq hz\<close>: \<^verbatim>\<open>pwm.set_pwm_freq(hz)\<close>.
  \<open>SetPwidth c w\<close>: entry of \<^verbatim>\<open>set_pwidth(c, w)\<close>, recording the width in seconds that
  is about to be converted. \<open>SetPwm c on off\<close>: the hardware write \<^verbatim>\<open>pwm.set_pwm(c, on, off)\<close>.
  \<open>Print msg\<close>: a line on standard output.
  \<open>OpenSerial i p\<close>: \<^verbatim>\<open>MultiWii(p)\<close> created object number \<open>i\<close>.
  \<open>GetData i\<close>: \<^verbatim>\<open>getData(MultiWii.ATTITUDE)\<close> on object \<open>i\<close>.
  \<open>CloseSerial i\<close>: \<^verbatim>\<open>closeSerial()\<close> on object \<open>i\<close>.
\<close>

record state =
  period :: real
  roll_pwm_trim :: real
  pitch_pwm_trim :: real
  yaw_pwm_trim :: real
  board :: "nat option"
  links :: "link list"
  sensor :: "nat \<Rightarrow> attitude"
  fetches :: nat
  trace :: "event list"

text \<open>
  \<open>period\<close> and the three trims are the attributes set by \<^verbatim>\<open>__init__\<close>; \<open>board\<close> is
  \<^verbatim>\<open>self.board\<close> (\<open>None\<close> as in Python, otherwise the index of a \<^verbatim>\<open>MultiWii\<close>
  object in \<open>links\<close>). \<open>sensor k\<close> is the attitude frame with which the flight controller
  answers the \<open>k\<close>-th request, and \<open>fetches\<close> counts the requests made so far.
\<close>

subsection \<open>validate\_pwidth (lines 150--160)\<close>

definition validate_pwidth :: "real \<Rightarrow> real \<times> bool" where
  "validate_pwidth width =
     (if width > MAX_WIDTH then (MAX_WIDTH, False)
      else if width < MIN_WIDTH then (MIN_WIDTH, False)
      else (width, True))"

subsection \<open>set\_pwidth (lines 91--103)\<close>

text \<open>Python 2 \<^verbatim>\<open>int(round(x))\<close>: to the nearest integer, halves away from zero.\<close>

definition py_round :: "real \<Rightarrow> int" where
  "py_round x = (if 0 \<le> x then \<lfloor>x + 1 / 2\<rfloor> else \<lceil>x - 1 / 2\<rceil>)"

text \<open>Lines 101--102: \<^verbatim>\<open>width = width / self.period * self.TICKS; pulse = int(round(width))\<close>,
  for a period that is not zero.\<close>

definition pulse_ticks :: "real \<Rightarrow> real \<Rightarrow> int" where
  "pulse_ticks p width = py_round (width / p * TICKS)"

text \<open>Float division by a zero period raises \<^verbatim>\<open>ZeroDivisionError\<close> before anything is
  written.\<close>

definition set_pwidth :: "state \<Rightarrow> int \<Rightarrow> real \<Rightarrow> state result" where
  "set_pwidth s channel width =
     (if period s = 0 then Inl ZeroDivisionError
      else Inr (s\<lparr>trace := trace s @
             [SetPwidth channel width, SetPwm channel 0 (pulse_ticks (period s) width)]\<rparr>))"

subsection \<open>reset\_channels (lines 77--89)\<close>

text \<open>The loop \<^verbatim>\<open>for i in range(6): self.set_pwidth(i, self.MID_WIDTH)\<close>, over the list of
  indices still to visit; an exception leaves the loop.\<close>

fun set_each :: "state \<Rightarrow> int list \<Rightarrow> real \<Rightarrow> state result" where
  "set_each s [] width = Inr s"
| "set_each s (i # rest) width =
     (case set_pwidth s i width of
        Inl e \<Rightarrow> Inl e
      | Inr s' \<Rightarrow> set_each s' rest width)"

text \<open>\<^verbatim>\<open>range(6)\<close>.\<close>

definition range6 :: "int list" where
  "range6 = [0, 1, 2, 3, 4, 5]"

definition reset_channels :: "state \<Rightarrow> state result" where
  "reset_channels s =
     (case set_each s range6 MID_WIDTH of
        Inl e \<Rightarrow> Inl e
      | Inr s1 \<Rightarrow>
     (case set_pwidth s1 ROLL_CHANNEL (MID_WIDTH + roll_pwm_trim s1) of
        Inl e \<Rightarrow> Inl e
      | Inr s2 \<Rightarrow>
     (case set_pwidth s2 PITCH_CHANNEL (MID_WIDTH + pitch_pwm_trim s2) of
        Inl e \<Rightarrow> Inl e
      | Inr s3 \<Rightarrow> set_pwidth s3 YAW_CHANNEL (MID_WIDTH + yaw_pwm_trim s3))))"

subsection \<open>set\_roll\_pwidth, set\_pitch\_pwidth, set\_yaw\_pwidth (lines 105--148)\<close>

definition warn :: "state \<Rightarrow> string \<Rightarrow> state" where
  "warn s msg = s\<lparr>trace := trace s @ [Print msg]\<rparr>"

definition set_roll_pwidth :: "state \<Rightarrow> real \<Rightarrow> state result" where
  "set_roll_pwidth s width =
     (case validate_pwidth (width + roll_pwm_trim s) of
        (width', valid) \<Rightarrow>
          (case set_pwidth s ROLL_CHANNEL width' of
             Inl e \<Rightarrow> Inl e
           | Inr s' \<Rightarrow>
               Inr (if \<not> valid then warn s' ''WARNING: Roll out of range!'' else s')))"

definition set_pitch_pwidth :: "state \<Rightarrow> real \<Rightarrow> state result" where
  "set_pitch_pwidth s width =
     (case validate_pwidth (width + pitch_pwm_trim s) of
        (width', valid) \<Rightarrow>
          (case set_pwidth s PITCH_CHANNEL width' of
             Inl e \<Rightarrow> Inl e
           | Inr s' \<Rightarrow>
               Inr (if \<not> valid then warn s' ''WARNING: Pitch out of range!'' else s')))"

definition set_yaw_pwidth :: "state \<Rightarrow> real \<Rightarrow> state result" where
  "set_yaw_pwidth s width =
     (case validate_pwidth (width + yaw_pwm_trim s) of
        (width', valid) \<Rightarrow>
          (case set_pwidth s YAW_CHANNEL width' of
             Inl e \<Rightarrow> Inl e
           | Inr s' \<Rightarrow>
               Inr (if \<not> valid then warn s' ''WARNING: Yaw out of range!'' else s')))"

subsection \<open>The MultiWii link (external library)\<close>

text \<open>\<^verbatim>\<open>MultiWii(port)\<close>: a new object on the given port, appended to the store; the
  result is its index. The library is not part of the repository; it is taken as an opaque
  call that succeeds.\<close>

definition MultiWii :: "state \<Rightarrow> string \<Rightarrow> state \<times> nat" where
  "MultiWii s p =
     (let i = length (links s) in
      (s\<lparr>links := links s @ [\<lparr>port = p, is_open = True,
                                attitude = \<lparr>angx = 0, angy = 0, heading = 0\<rparr>\<rparr>],
         trace := trace s @ [OpenSerial i p]\<rparr>, i))"

text \<open>\<^verbatim>\<open>self.board.getData(MultiWii.ATTITUDE)\<close>: attribute access on \<^verbatim>\<open>None\<close> raises
  \<^verbatim>\<open>AttributeError\<close>; otherwise the referenced object's attitude dictionary is refreshed
  with the flight controller's next frame.\<close>

definition board_getData :: "state \<Rightarrow> state result" where
  "board_getData s =
     (case board s of
        None \<Rightarrow> Inl AttributeError
      | Some i \<Rightarrow>
          Inr (s\<lparr>links := (links s)[i := (links s ! i)\<lparr>attitude := sensor s (fetches s)\<rparr>],
                 fetches := Suc (fetches s),
                 trace := trace s @ [GetData i]\<rparr>))"

text \<open>\<^verbatim>\<open>self.board.closeSerial()\<close>.\<close>

definition board_closeSerial :: "state \<Rightarrow> state result" where
  "board_closeSerial s =
     (case board s of
        None \<Rightarrow> Inl AttributeError
      | Some i \<Rightarrow>
          Inr (s\<lparr>links := (links s)[i := (links s ! i)\<lparr>is_open := False\<rparr>],
                 trace := trace s @ [CloseSerial i]\<rparr>))"

text \<open>\<^verbatim>\<open>self.board.attitude[key]\<close> after a successful \<^verbatim>\<open>getData\<close> (the board is not
  \<^verbatim>\<open>None\<close> there).\<close>

definition board_attitude :: "state \<Rightarrow> attitude" where
  "board_attitude s = attitude (links s ! the (board s))"

subsection \<open>Telemetry accessors (lines 162--190)\<close>

definition get_roll :: "state \<Rightarrow> (state \<times> real) result" where
  "get_roll s =
     (case board_getData s of
        Inl e \<Rightarrow> Inl e
      | Inr s' \<Rightarrow> Inr (s', angx (board_attitude s')))"

definition get_pitch :: "state \<Rightarrow> (state \<times> real) result" where
  "get_pitch s =
     (case board_getData s of
        Inl e \<Rightarrow> Inl e
      | Inr s' \<Rightarrow> Inr (s', angy (board_attitude s')))"

definition get_yaw :: "state \<Rightarrow> (state \<times> real) result" where
  "get_yaw s =
     (case board_getData s of
        Inl e \<Rightarrow> Inl e
      | Inr s' \<Rightarrow> Inr (s', heading (board_attitude s')))"

text \<open>\<^verbatim>\<open>get_data\<close> returns the field for one of the three names; for any other argument it
  prints, closes the serial link and falls off the end of the function, which returns
  \<^verbatim>\<open>None\<close>.\<close>

definition get_data :: "state \<Rightarrow> string \<Rightarrow> (state \<times> real option) result" where
  "get_data s arg =
     (case board_getData s of
        Inl e \<Rightarrow> Inl e
      | Inr s' \<Rightarrow>
          if arg = ''angx'' then Inr (s', Some (angx (board_attitude s')))
          else if arg = ''angy'' then Inr (s', Some (angy (board_attitude s')))
          else if arg = ''heading'' then Inr (s', Some (heading (board_attitude s')))
          else (case board_closeSerial (warn s' ''Invalid argument\<newline>'') of
                  Inl e \<Rightarrow> Inl e
                | Inr s'' \<Rightarrow> Inr (s'', None)))"

subsection \<open>exit (lines 192--198)\<close>

definition exit :: "state \<Rightarrow> state result" where
  "exit s =
     (case reset_channels s of
        Inl e \<Rightarrow> Inl e
      | Inr s1 \<Rightarrow>
          (case MultiWii s1 ''/dev/ttyUSB0'' of
             (s2, i) \<Rightarrow> board_closeSerial (s2\<lparr>board := Some i\<rparr>)))"

subsection \<open>The constructor (lines 54--75)\<close>

text \<open>\<open>env\<close> is the flight controller's stream of frames. \<^verbatim>\<open>1./(k_period*period)\<close> raises
  \<^verbatim>\<open>ZeroDivisionError\<close> when the product is zero.\<close>

definition DroneComm_init ::
  "(nat \<Rightarrow> attitude) \<Rightarrow> real \<Rightarrow> real option \<Rightarrow> real \<Rightarrow> real \<Rightarrow> real \<Rightarrow> string option
     \<Rightarrow> state result" where
  "DroneComm_init env period0 k_period roll_trim pitch_trim yaw_trim port0 =
     (let k = (case k_period of None \<Rightarrow> DEFAULT_K_PERIOD | Some k' \<Rightarrow> k') in
      if k * period0 = 0 then Inl ZeroDivisionError
      else
        let s0 = \<lparr>period = period0,
                  roll_pwm_trim = roll_trim * (1 / 1000000),
                  pitch_pwm_trim = pitch_trim * (1 / 1000000),
                  yaw_pwm_trim = yaw_trim * (1 / 1000000),
                  board = None, links = [], sensor = env, fetches = 0,
                  trace = [SetPwmFreq (1 / (k * period0))]\<rparr>;
            s1 = (case port0 of
                    None \<Rightarrow> s0
                  | Some p \<Rightarrow> (case MultiWii s0 p of (s', i) \<Rightarrow> s'\<lparr>board := Some i\<rparr>))
        in reset_channels s1)"

subsection \<open>Sequences of calls\<close>

text \<open>One call on a \<^verbatim>\<open>DroneComm\<close> object by its user.\<close>

datatype call =
    Set_roll real
  | Set_pitch real
  | Set_yaw real
  | Reset
  | Set_pwidth int real
  | Get_roll
  | Get_pitch
  | Get_yaw
  | Get_data string
  | Exit

fun perform :: "state \<Rightarrow> call \<Rightarrow> state result" where
  "perform s (Set_roll w) = set_roll_pwidth s w"
| "perform s (Set_pitch w) = set_pitch_pwidth s w"
| "perform s (Set_yaw w) = set_yaw_pwidth s w"
| "perform s Reset = reset_channels s"
| "perform s (Set_pwidth c w) = set_pwidth s c w"
| "perform s Get_roll = map_sum id fst (get_roll s)"
| "perform s Get_pitch = map_sum id fst (get_pitch s)"
| "perform s Get_yaw = map_sum id fst (get_yaw s)"
| "perform s (Get_data arg) = map_sum id fst (get_data s arg)"
| "perform s Exit = exit s"

text \<open>A straight-line caller: the calls in order, the first exception ends the run.\<close>

fun run :: "state \<Rightarrow> call list \<Rightarrow> state result" where
  "run s [] = Inr s"
| "run s (c # cs) =
     (case perform s c of
        Inl e \<Rightarrow> Inl e
      | Inr s' \<Rightarrow> run s' cs)"

text \<open>Construction followed by a run.\<close>

definition session ::
  "(nat \<Rightarrow> attitude) \<Rightarrow> real \<Rightarrow> real option \<Rightarrow> real \<Rightarrow> real \<Rightarrow> real \<Rightarrow> string option
     \<Rightarrow> call list \<Rightarrow> state result" where
  "session env period0 k_period roll_trim pitch_trim yaw_trim port0 cs =
     (case DroneComm_init env period0 k_period roll_trim pitch_trim yaw_trim port0 of
        Inl e \<Rightarrow> Inl e
      | Inr s \<Rightarrow> run s cs)"

subsection \<open>Reading a trace\<close>

text \<open>The widths handed to \<^verbatim>\<open>set_pwidth\<close>, in order.\<close>

fun widths_written :: "event list \<Rightarrow> real list" where
  "widths_written [] = []"
| "widths_written (SetPwidth c w # es) = w # widths_written es"
| "widths_written (e # es) = widths_written es"

definition in_range :: "real \<Rightarrow> bool" where
  "in_range w = (MIN_WIDTH \<le> w \<and> w \<le> MAX_WIDTH)"

text \<open>A direct call of \<^verbatim>\<open>set_pwidth\<close> by the user, as opposed to the commands built on it.\<close>

fun is_raw :: "call \<Rightarrow> bool" where
  "is_raw (Set_pwidth c w) = True"
| "is_raw c = False"

text \<open>A trim in microseconds, as given to the constructor, that keeps the trimmed middle
  position within the range.\<close>

definition trim_ok :: "real \<Rightarrow> bool" where
  "trim_ok t = in_range (MID_WIDTH + t * (1 / 1000000))"

text \<open>Every width handed to \<^verbatim>\<open>set_pwidth\<close> so far is within the range, and so are the three
  trimmed middle positions that \<^verbatim>\<open>reset_channels\<close> writes.\<close>

definition safe :: "state \<Rightarrow> bool" where
  "safe s =
     ((\<forall>w \<in> set (widths_written (trace s)). in_range w) \<and>
      in_range (MID_WIDTH + roll_pwm_trim s) \<and>
      in_range (MID_WIDTH + pitch_pwm_trim s) \<and>
      in_range (MID_WIDTH + yaw_pwm_trim s))"

text \<open>The width last programmed on each channel: later calls overwrite earlier ones.\<close>

fun note_width :: "(int \<rightharpoonup> real) \<Rightarrow> event \<Rightarrow> (int \<rightharpoonup> real)" where
  "note_width m (SetPwidth c w) = m(c \<mapsto> w)"
| "note_width m e = m"

definition programmed_width :: "event list \<Rightarrow> (int \<rightharpoonup> real)" where
  "programmed_width es = foldl note_width Map.empty es"

text \<open>The off-tick last written to each channel of the generator.\<close>

fun note_ticks :: "(int \<rightharpoonup> int) \<Rightarrow> event \<Rightarrow> (int \<rightharpoonup> int)" where
  "note_ticks m (SetPwm c a b) = m(c \<mapsto> b)"
| "note_ticks m e = m"

definition programmed_ticks :: "event list \<Rightarrow> (int \<rightharpoonup> int)" where
  "programmed_ticks es = foldl note_ticks Map.empty es"

text \<open>The events of a \<^verbatim>\<open>reset_channels\<close> that returns, written out: six writes of
  \<open>MID_WIDTH\<close> on channels 0 to 5, then the trimmed writes on channels 3, 2 and 1.\<close>

definition reset_events :: "state \<Rightarrow> event list" where
  "reset_events s =
     [SetPwidth 0 MID_WIDTH, SetPwm 0 0 (pulse_ticks (period s) MID_WIDTH),
      SetPwidth 1 MID_WIDTH, SetPwm 1 0 (pulse_ticks (period s) MID_WIDTH),
      SetPwidth 2 MID_WIDTH, SetPwm 2 0 (pulse_ticks (period s) MID_WIDTH),
      SetPwidth 3 MID_WIDTH, SetPwm 3 0 (pulse_ticks (period s) MID_WIDTH),
      SetPwidth 4 MID_WIDTH, SetPwm 4 0 (pulse_ticks (period s) MID_WIDTH),
      SetPwidth 5 MID_WIDTH, SetPwm 5 0 (pulse_ticks (period s) MID_WIDTH),
      SetPwidth 3 (MID_WIDTH + roll_pwm_trim s),
      SetPwm 3 0 (pulse_ticks (period s) (MID_WIDTH + roll_pwm_trim s)),
      SetPwidth 2 (MID_WIDTH + pitch_pwm_trim s),
      SetPwm 2 0 (pulse_ticks (period s) (MID_WIDTH + pitch_pwm_trim s)),
      SetPwidth 1 (MID_WIDTH + yaw_pwm_trim s),
      SetPwm 1 0 (pulse_ticks (period s) (MID_WIDTH + yaw_pwm_trim s))]"

subsection \<open>Example inputs\<close>

text \<open>A flight controller that reports a level attitude, and objects built with the
  default period of 22 ms.\<close>

definition level :: "nat \<Rightarrow> attitude" where
  "level k = \<lparr>angx = 0, angy = 0, heading = 0\<rparr>"

definition bare :: "real \<Rightarrow> real \<Rightarrow> real \<Rightarrow> real \<Rightarrow> state" where
  "bare p r pt y =
     \<lparr>period = p, roll_pwm_trim = r, pitch_pwm_trim = pt, yaw_pwm_trim = y,
      board = None, links = [], sensor = level, fetches = 0, trace = []\<rparr>"

text \<open>The object that the constructor builds for a port, before any event.\<close>

definition linked :: "string \<Rightarrow> state" where
  "linked p =
     (bare (22 / 1000) 0 0 0)
       \<lparr>board := Some 0,
        links := [\<lparr>port = p, is_open = True,
                   attitude = \<lparr>angx = 0, angy = 0, heading = 0\<rparr>\<rparr>]\<rparr>"

section \<open>Properties\<close>

subsection \<open>validate\_pwidth\<close>

text \<open>
  Claim C4. \<open>validate_pwidth\<close> is the identity with an in-range flag on the closed interval:
  a width between \<open>MIN_WIDTH\<close> and \<open>MAX_WIDTH\<close> inclusive is returned unchanged with
  \<open>True\<close>; a width above \<open>MAX_WIDTH\<close> gives \<open>(MAX_WIDTH, False)\<close>; a width below
  \<open>MIN_WIDTH\<close> gives \<open>(MIN_WIDTH, False)\<close>.
\<close>

theorem validate_pwidth_cases:
  "(MIN_WIDTH \<le> width \<and> width \<le> MAX_WIDTH \<longrightarrow> validate_pwidth width = (width, True)) \<and>
   (width > MAX_WIDTH \<longrightarrow> validate_pwidth width = (MAX_WIDTH, False)) \<and>
   (width < MIN_WIDTH \<longrightarrow> validate_pwidth width = (MIN_WIDTH, False))"
  by (simp add: validate_pwidth_def MIN_WIDTH_def MAX_WIDTH_def)

theorem validate_pwidth_cases_witness:
  "validate_pwidth (15 / 10000) = (15 / 10000, True) \<and>
   validate_pwidth MIN_WIDTH = (MIN_WIDTH, True) \<and>
   validate_pwidth MAX_WIDTH = (MAX_WIDTH, True) \<and>
   validate_pwidth (2 / 1000) = (MAX_WIDTH, False) \<and>
   validate_pwidth (1 / 1000) = (MIN_WIDTH, False)"
  using validate_pwidth_cases [of "15 / 10000"] validate_pwidth_cases [of MIN_WIDTH]
    validate_pwidth_cases [of MAX_WIDTH] validate_pwidth_cases [of "2 / 1000"]
    validate_pwidth_cases [of "1 / 1000"]
  by (simp add: MIN_WIDTH_def MAX_WIDTH_def)

subsection \<open>Seconds to ticks\<close>

lemma py_round_mono: "x \<le> y \<Longrightarrow> py_round x \<le> py_round y"
  unfolding py_round_def
  by (auto intro!: floor_mono ceiling_mono) linarith+

text \<open>
  Claim C5. The conversion inside \<open>set_pwidth\<close> is \<open>round (width / period * 4096)\<close> with no
  clamping: for a period that is not zero, \<open>set_pwidth\<close> writes exactly that off-tick for
  whatever width it is given; with width 0.0015 and period 0.022 the value is 279.
\<close>

theorem set_pwidth_ticks:
  "(period s \<noteq> 0 \<longrightarrow>
      set_pwidth s channel width =
        Inr (s\<lparr>trace := trace s @
               [SetPwidth channel width,
                SetPwm channel 0 (py_round (width / period s * 4096))]\<rparr>)) \<and>
   pulse_ticks (22 / 1000) (15 / 10000) = 279"
  by (simp add: set_pwidth_def pulse_ticks_def TICKS_def py_round_def)

theorem set_pwidth_ticks_witness:
  "set_pwidth (bare (22 / 1000) 0 0 0) 4 (5 / 1000) =
     Inr ((bare (22 / 1000) 0 0 0)\<lparr>trace := [SetPwidth 4 (5 / 1000), SetPwm 4 0 931]\<rparr>) \<and>
   set_pwidth (bare (22 / 1000) 0 0 0) 4 MID_WIDTH =
     Inr ((bare (22 / 1000) 0 0 0)\<lparr>trace := [SetPwidth 4 MID_WIDTH, SetPwm 4 0 279]\<rparr>)"
  using set_pwidth_ticks [of "bare (22 / 1000) 0 0 0" 4 "5 / 1000"]
    set_pwidth_ticks [of "bare (22 / 1000) 0 0 0" 4 MID_WIDTH]
  by (simp add: bare_def py_round_def MID_WIDTH_def)

text \<open>
  Claim C6. For a fixed positive period (and the fixed 4096 ticks per period), the tick value
  is monotonic non-decreasing in the width.
\<close>

theorem pulse_ticks_mono:
  assumes "0 < p" and "w1 \<le> w2"
  shows "pulse_ticks p w1 \<le> pulse_ticks p w2"
proof -
  have "w1 / p \<le> w2 / p"
    using assms by (simp add: divide_right_mono)
  moreover have "0 \<le> TICKS"
    by (simp add: TICKS_def)
  ultimately have "w1 / p * TICKS \<le> w2 / p * TICKS"
    by (rule mult_right_mono)
  then show ?thesis
    unfolding pulse_ticks_def by (rule py_round_mono)
qed

theorem pulse_ticks_mono_witness:
  "(0::real) < 22 / 1000 \<and> MIN_WIDTH \<le> MAX_WIDTH \<and>
   pulse_ticks (22 / 1000) MIN_WIDTH = 205 \<and> pulse_ticks (22 / 1000) MAX_WIDTH = 354 \<and>
   pulse_ticks (22 / 1000) MIN_WIDTH \<le> pulse_ticks (22 / 1000) MAX_WIDTH"
  using pulse_ticks_mono [of "22 / 1000" MIN_WIDTH MAX_WIDTH]
  by (simp add: MIN_WIDTH_def MAX_WIDTH_def pulse_ticks_def py_round_def TICKS_def)

subsection \<open>Clipping in set\_roll\_pwidth\<close>

text \<open>
  Claim C7. When the requested width plus the roll trim exceeds \<open>MAX_WIDTH\<close>,
  \<open>set_roll_pwidth\<close> returns normally, programs the roll channel with \<open>MAX_WIDTH\<close>
  converted to ticks, and then prints the warning that names Roll.
\<close>

theorem set_roll_pwidth_clips_high:
  assumes "period s \<noteq> 0" and "width + roll_pwm_trim s > MAX_WIDTH"
  shows "set_roll_pwidth s width =
           Inr (s\<lparr>trace := trace s @
                  [SetPwidth ROLL_CHANNEL MAX_WIDTH,
                   SetPwm ROLL_CHANNEL 0 (pulse_ticks (period s) MAX_WIDTH),
                   Print ''WARNING: Roll out of range!'']\<rparr>)"
  using assms by (simp add: set_roll_pwidth_def validate_pwidth_def set_pwidth_def warn_def)

theorem set_roll_pwidth_clips_high_witness:
  "period (bare (22 / 1000) (1 / 10000) 0 0) \<noteq> 0 \<and>
   19 / 10000 + roll_pwm_trim (bare (22 / 1000) (1 / 10000) 0 0) > MAX_WIDTH \<and>
   set_roll_pwidth (bare (22 / 1000) (1 / 10000) 0 0) (19 / 10000) =
     Inr ((bare (22 / 1000) (1 / 10000) 0 0)\<lparr>trace :=
            [SetPwidth 3 (19 / 10000), SetPwm 3 0 354, Print ''WARNING: Roll out of range!'']\<rparr>)"
  using set_roll_pwidth_clips_high [of "bare (22 / 1000) (1 / 10000) 0 0" "19 / 10000"]
  by (simp add: bare_def MAX_WIDTH_def ROLL_CHANNEL_def pulse_ticks_def py_round_def TICKS_def)

subsection \<open>reset\_channels\<close>

lemma reset_channels_Inr:
  "period s \<noteq> 0 \<Longrightarrow> reset_channels s = Inr (s\<lparr>trace := trace s @ reset_events s\<rparr>)"
  by (simp add: reset_channels_def range6_def set_pwidth_def reset_events_def
      ROLL_CHANNEL_def PITCH_CHANNEL_def YAW_CHANNEL_def)

lemma reset_channels_Inl:
  "period s = 0 \<Longrightarrow> reset_channels s = Inl ZeroDivisionError"
  by (simp add: reset_channels_def range6_def set_pwidth_def)

lemma programmed_width_append:
  "programmed_width (es @ fs) = foldl note_width (programmed_width es) fs"
  by (simp add: programmed_width_def)

lemma programmed_ticks_append:
  "programmed_ticks (es @ fs) = foldl note_ticks (programmed_ticks es) fs"
  by (simp add: programmed_ticks_def)

lemma other_channels:
  "0 \<le> c \<and> c \<le> 5 \<and> c \<noteq> ROLL_CHANNEL \<and> c \<noteq> PITCH_CHANNEL \<and> c \<noteq> YAW_CHANNEL
     \<Longrightarrow> c = 0 \<or> c = 4 \<or> c = (5::int)"
  unfolding ROLL_CHANNEL_def PITCH_CHANNEL_def YAW_CHANNEL_def by arith

lemma widths_after_reset:
  "foldl note_width m (reset_events s) =
     m(0 \<mapsto> MID_WIDTH, 4 \<mapsto> MID_WIDTH, 5 \<mapsto> MID_WIDTH,
       3 \<mapsto> MID_WIDTH + roll_pwm_trim s,
       2 \<mapsto> MID_WIDTH + pitch_pwm_trim s,
       1 \<mapsto> MID_WIDTH + yaw_pwm_trim s)"
  unfolding reset_events_def by (rule ext) simp

lemma ticks_after_reset:
  "foldl note_ticks m (reset_events s) =
     m(0 \<mapsto> pulse_ticks (period s) MID_WIDTH,
       4 \<mapsto> pulse_ticks (period s) MID_WIDTH,
       5 \<mapsto> pulse_ticks (period s) MID_WIDTH,
       3 \<mapsto> pulse_ticks (period s) (MID_WIDTH + roll_pwm_trim s),
       2 \<mapsto> pulse_ticks (period s) (MID_WIDTH + pitch_pwm_trim s),
       1 \<mapsto> pulse_ticks (period s) (MID_WIDTH + yaw_pwm_trim s))"
  unfolding reset_events_def by (rule ext) simp

text \<open>
  Claim C3. After \<open>reset_channels\<close> has returned, for any trims, the width last programmed on
  the roll, pitch and yaw channels is \<open>MID_WIDTH\<close> plus the trim of that axis, and on every
  other channel from 0 to 5 it is \<open>MID_WIDTH\<close> exactly; the ticks last written to the generator
  are the conversions of these widths. \<open>reset_channels\<close> returns whenever the period is not zero.
\<close>

theorem reset_channels_programmed:
  assumes "period s \<noteq> 0"
  shows "\<exists>s'. reset_channels s = Inr s' \<and>
           programmed_width (trace s') ROLL_CHANNEL = Some (MID_WIDTH + roll_pwm_trim s) \<and>
           programmed_width (trace s') PITCH_CHANNEL = Some (MID_WIDTH + pitch_pwm_trim s) \<and>
           programmed_width (trace s') YAW_CHANNEL = Some (MID_WIDTH + yaw_pwm_trim s) \<and>
           (\<forall>c. 0 \<le> c \<and> c \<le> 5 \<and> c \<noteq> ROLL_CHANNEL \<and> c \<noteq> PITCH_CHANNEL \<and> c \<noteq> YAW_CHANNEL
                 \<longrightarrow> programmed_width (trace s') c = Some MID_WIDTH) \<and>
           programmed_ticks (trace s') ROLL_CHANNEL =
             Some (pulse_ticks (period s) (MID_WIDTH + roll_pwm_trim s)) \<and>
           programmed_ticks (trace s') PITCH_CHANNEL =
             Some (pulse_ticks (period s) (MID_WIDTH + pitch_pwm_trim s)) \<and>
           programmed_ticks (trace s') YAW_CHANNEL =
             Some (pulse_ticks (period s) (MID_WIDTH + yaw_pwm_trim s)) \<and>
           (\<forall>c. 0 \<le> c \<and> c \<le> 5 \<and> c \<noteq> ROLL_CHANNEL \<and> c \<noteq> PITCH_CHANNEL \<and> c \<noteq> YAW_CHANNEL
                 \<longrightarrow> programmed_ticks (trace s') c = Some (pulse_ticks (period s) MID_WIDTH))"
proof (intro exI conjI allI impI)
  let ?s' = "s\<lparr>trace := trace s @ reset_events s\<rparr>"
  have w: "programmed_width (trace ?s') =
             foldl note_width (programmed_width (trace s)) (reset_events s)"
    by (simp add: programmed_width_append)
  have t: "programmed_ticks (trace ?s') =
             foldl note_ticks (programmed_ticks (trace s)) (reset_events s)"
    by (simp add: programmed_ticks_append)
  show "reset_channels s = Inr ?s'"
    using assms by (rule reset_channels_Inr)
  show "programmed_width (trace ?s') ROLL_CHANNEL = Some (MID_WIDTH + roll_pwm_trim s)"
    unfolding w widths_after_reset by (simp add: ROLL_CHANNEL_def)
  show "programmed_width (trace ?s') PITCH_CHANNEL = Some (MID_WIDTH + pitch_pwm_trim s)"
    unfolding w widths_after_reset by (simp add: PITCH_CHANNEL_def)
  show "programmed_width (trace ?s') YAW_CHANNEL = Some (MID_WIDTH + yaw_pwm_trim s)"
    unfolding w widths_after_reset by (simp add: YAW_CHANNEL_def)
  show "programmed_ticks (trace ?s') ROLL_CHANNEL =
          Some (pulse_ticks (period s) (MID_WIDTH + roll_pwm_trim s))"
    unfolding t ticks_after_reset by (simp add: ROLL_CHANNEL_def)
  show "programmed_ticks (trace ?s') PITCH_CHANNEL =
          Some (pulse_ticks (period s) (MID_WIDTH + pitch_pwm_trim s))"
    unfolding t ticks_after_reset by (simp add: PITCH_CHANNEL_def)
  show "programmed_ticks (trace ?s') YAW_CHANNEL =
          Some (pulse_ticks (period s) (MID_WIDTH + yaw_pwm_trim s))"
    unfolding t ticks_after_reset by (simp add: YAW_CHANNEL_def)
next
  fix c :: int
  assume "0 \<le> c \<and> c \<le> 5 \<and> c \<noteq> ROLL_CHANNEL \<and> c \<noteq> PITCH_CHANNEL \<and> c \<noteq> YAW_CHANNEL"
  then have c: "c = 0 \<or> c = 4 \<or> c = 5"
    by (rule other_channels)
  have "foldl note_width (programmed_width (trace s)) (reset_events s) c = Some MID_WIDTH"
    unfolding widths_after_reset using c by auto
  then show "programmed_width (trace (s\<lparr>trace := trace s @ reset_events s\<rparr>)) c = Some MID_WIDTH"
    by (simp add: programmed_width_append)
next
  fix c :: int
  assume "0 \<le> c \<and> c \<le> 5 \<and> c \<noteq> ROLL_CHANNEL \<and> c \<noteq> PITCH_CHANNEL \<and> c \<noteq> YAW_CHANNEL"
  then have c: "c = 0 \<or> c = 4 \<or> c = 5"
    by (rule other_channels)
  have "foldl note_ticks (programmed_ticks (trace s)) (reset_events s) c =
          Some (pulse_ticks (period s) MID_WIDTH)"
    unfolding ticks_after_reset using c by auto
  then show "programmed_ticks (trace (s\<lparr>trace := trace s @ reset_events s\<rparr>)) c =
               Some (pulse_ticks (period s) MID_WIDTH)"
    by (simp add: programmed_ticks_append)
qed

theorem reset_channels_programmed_witness:
  "period (bare (22 / 1000) (1 / 10000) (- 1 / 10000) (5 / 10000)) \<noteq> 0 \<and>
   (\<exists>s'. reset_channels (bare (22 / 1000) (1 / 10000) (- 1 / 10000) (5 / 10000)) = Inr s' \<and>
      programmed_width (trace s') 3 = Some (16 / 10000) \<and>
      programmed_width (trace s') 2 = Some (14 / 10000) \<and>
      programmed_width (trace s') 1 = Some (20 / 10000) \<and>
      programmed_width (trace s') 0 = Some (15 / 10000) \<and>
      programmed_width (trace s') 4 = Some (15 / 10000) \<and>
      programmed_width (trace s') 5 = Some (15 / 10000) \<and>
      programmed_ticks (trace s') 3 = Some 298 \<and>
      programmed_ticks (trace s') 4 = Some 279)"
proof -
  let ?b = "bare (22 / 1000) (1 / 10000) (- 1 / 10000) (5 / 10000)"
  have p: "period ?b \<noteq> 0"
    by (simp add: bare_def)
  from reset_channels_programmed [OF p] obtain s' where
    r: "reset_channels ?b = Inr s'" and
    w3: "programmed_width (trace s') ROLL_CHANNEL = Some (MID_WIDTH + roll_pwm_trim ?b)" and
    w2: "programmed_width (trace s') PITCH_CHANNEL = Some (MID_WIDTH + pitch_pwm_trim ?b)" and
    w1: "programmed_width (trace s') YAW_CHANNEL = Some (MID_WIDTH + yaw_pwm_trim ?b)" and
    wo: "\<forall>c. 0 \<le> c \<and> c \<le> 5 \<and> c \<noteq> ROLL_CHANNEL \<and> c \<noteq> PITCH_CHANNEL \<and> c \<noteq> YAW_CHANNEL
           \<longrightarrow> programmed_width (trace s') c = Some MID_WIDTH" and
    t3: "programmed_ticks (trace s') ROLL_CHANNEL =
           Some (pulse_ticks (period ?b) (MID_WIDTH + roll_pwm_trim ?b))" and
    to: "\<forall>c. 0 \<le> c \<and> c \<le> 5 \<and> c \<noteq> ROLL_CHANNEL \<and> c \<noteq> PITCH_CHANNEL \<and> c \<noteq> YAW_CHANNEL
           \<longrightarrow> programmed_ticks (trace s') c = Some (pulse_ticks (period ?b) MID_WIDTH)"
    by (elim exE conjE)
  have a3: "programmed_width (trace s') 3 = Some (16 / 10000)"
    using w3 by (simp add: ROLL_CHANNEL_def MID_WIDTH_def bare_def)
  have a2: "programmed_width (trace s') 2 = Some (14 / 10000)"
    using w2 by (simp add: PITCH_CHANNEL_def MID_WIDTH_def bare_def)
  have a1: "programmed_width (trace s') 1 = Some (20 / 10000)"
    using w1 by (simp add: YAW_CHANNEL_def MID_WIDTH_def bare_def)
  have a0: "programmed_width (trace s') 0 = Some (15 / 10000)"
    using wo [rule_format, of 0]
    by (simp add: ROLL_CHANNEL_def PITCH_CHANNEL_def YAW_CHANNEL_def MID_WIDTH_def)
  have a4: "programmed_width (trace s') 4 = Some (15 / 10000)"
    using wo [rule_format, of 4]
    by (simp add: ROLL_CHANNEL_def PITCH_CHANNEL_def YAW_CHANNEL_def MID_WIDTH_def)
  have a5: "programmed_width (trace s') 5 = Some (15 / 10000)"
    using wo [rule_format, of 5]
    by (simp add: ROLL_CHANNEL_def PITCH_CHANNEL_def YAW_CHANNEL_def MID_WIDTH_def)
  have b3: "programmed_ticks (trace s') 3 = Some 298"
    using t3
    by (simp add: ROLL_CHANNEL_def MID_WIDTH_def bare_def pulse_ticks_def py_round_def TICKS_def)
  have b4: "programmed_ticks (trace s') 4 = Some 279"
    using to [rule_format, of 4]
    by (simp add: ROLL_CHANNEL_def PITCH_CHANNEL_def YAW_CHANNEL_def MID_WIDTH_def bare_def
        pulse_ticks_def py_round_def TICKS_def)
  from p r a3 a2 a1 a0 a4 a5 b3 b4 show ?thesis
    by (intro conjI exI)
qed

subsection \<open>exit\<close>

lemma exit_Inr:
  "period s \<noteq> 0 \<Longrightarrow>
   exit s =
     Inr (s\<lparr>board := Some (length (links s)),
            links := links s @ [\<lparr>port = ''/dev/ttyUSB0'', is_open = False,
                                 attitude = \<lparr>angx = 0, angy = 0, heading = 0\<rparr>\<rparr>],
            trace := trace s @ reset_events s @
              [OpenSerial (length (links s)) ''/dev/ttyUSB0'', CloseSerial (length (links s))]\<rparr>)"
  by (simp add: exit_def reset_channels_Inr MultiWii_def board_closeSerial_def Let_def)

lemma exit_Inl:
  "period s = 0 \<Longrightarrow> exit s = Inl ZeroDivisionError"
  by (simp add: exit_def reset_channels_Inl)

lemma set_pitch_pwidth_Inr:
  "period s \<noteq> 0 \<Longrightarrow>
   set_pitch_pwidth s width =
     Inr (s\<lparr>trace := trace s @
            [SetPwidth PITCH_CHANNEL (fst (validate_pwidth (width + pitch_pwm_trim s))),
             SetPwm PITCH_CHANNEL 0
               (pulse_ticks (period s) (fst (validate_pwidth (width + pitch_pwm_trim s))))] @
            (if snd (validate_pwidth (width + pitch_pwm_trim s)) then []
             else [Print ''WARNING: Pitch out of range!''])\<rparr>)"
  by (simp add: set_pitch_pwidth_def set_pwidth_def warn_def split: prod.split)

text \<open>
  Claim C2 says that after \<open>exit\<close> a call of \<open>set_pitch_pwidth\<close> fails with an invalid-state
  error and writes nothing. The class keeps no lifecycle state and has no such error: on the
  object built with the defaults, \<open>set_pitch_pwidth\<close> after \<open>exit\<close> returns normally and writes
  279 ticks to channel 2.
\<close>

theorem set_pitch_after_exit_counterexample:
  "(case session level (22 / 1000) None 0 0 0 (Some ''/dev/ttyUSB0'') [Exit] of
      Inl e \<Rightarrow> False
    | Inr s \<Rightarrow>
        set_pitch_pwidth s (15 / 10000) =
          Inr (s\<lparr>trace := trace s @ [SetPwidth 2 (15 / 10000), SetPwm 2 0 279]\<rparr>))"
  by (simp add: session_def DroneComm_init_def DEFAULT_K_PERIOD_def Let_def MultiWii_def
      reset_channels_Inr exit_Inr set_pitch_pwidth_Inr validate_pwidth_def
      MIN_WIDTH_def MAX_WIDTH_def PITCH_CHANNEL_def pulse_ticks_def py_round_def TICKS_def)

text \<open>
  Claim C2, amended. After \<open>exit\<close> has returned, \<open>set_pitch_pwidth\<close> returns normally and
  performs the hardware write on the pitch channel with the trimmed, clamped width, followed
  by the warning when the width was clipped, exactly as before \<open>exit\<close>.
\<close>

theorem set_pitch_after_exit:
  assumes "exit s = Inr s'"
  shows "set_pitch_pwidth s' width =
     Inr (s'\<lparr>trace := trace s' @
            [SetPwidth PITCH_CHANNEL (fst (validate_pwidth (width + pitch_pwm_trim s))),
             SetPwm PITCH_CHANNEL 0
               (pulse_ticks (period s) (fst (validate_pwidth (width + pitch_pwm_trim s))))] @
            (if snd (validate_pwidth (width + pitch_pwm_trim s)) then []
             else [Print ''WARNING: Pitch out of range!''])\<rparr>)"
proof -
  have p: "period s \<noteq> 0"
    using assms exit_Inl [of s] by auto
  from assms have s': "period s' = period s" "pitch_pwm_trim s' = pitch_pwm_trim s"
    unfolding exit_Inr [OF p] by auto
  then have "period s' \<noteq> 0"
    using p by simp
  then show ?thesis
    using set_pitch_pwidth_Inr [of s' width] s' by simp
qed

theorem set_pitch_after_exit_witness:
  "\<exists>s'. exit (linked ''/dev/ttyUSB0'') = Inr s' \<and>
     set_pitch_pwidth s' (2 / 1000) =
       Inr (s'\<lparr>trace := trace s' @
              [SetPwidth 2 (19 / 10000), SetPwm 2 0 354,
               Print ''WARNING: Pitch out of range!'']\<rparr>)"
proof -
  let ?s = "linked ''/dev/ttyUSB0''"
  have "period ?s \<noteq> 0"
    by (simp add: linked_def bare_def)
  then obtain s' where e: "exit ?s = Inr s'"
    using exit_Inr [of ?s] by simp
  have "set_pitch_pwidth s' (2 / 1000) =
       Inr (s'\<lparr>trace := trace s' @
              [SetPwidth 2 (19 / 10000), SetPwm 2 0 354,
               Print ''WARNING: Pitch out of range!'']\<rparr>)"
    using set_pitch_after_exit [OF e, of "2 / 1000"]
    by (simp add: linked_def bare_def validate_pwidth_def MAX_WIDTH_def MIN_WIDTH_def
        PITCH_CHANNEL_def pulse_ticks_def py_round_def TICKS_def)
  with e show ?thesis
    by blast
qed

text \<open>
  Claim C8 says that \<open>exit\<close> resets the channels and then closes the telemetry link that the
  object owns. The reset comes first, but the link closed is a second one, opened by \<open>exit\<close>
  itself on the fixed path \<^verbatim>\<open>/dev/ttyUSB0\<close>: for an object built on \<^verbatim>\<open>/dev/ttyUSB1\<close>, the
  link of the constructor (number 0) is still open after \<open>exit\<close> and was never closed.
\<close>

theorem exit_closes_second_link:
  "(case session level (22 / 1000) None 0 0 0 (Some ''/dev/ttyUSB1'') [Exit] of
      Inl e \<Rightarrow> False
    | Inr s \<Rightarrow>
        board s = Some 1 \<and>
        map port (links s) = [''/dev/ttyUSB1'', ''/dev/ttyUSB0''] \<and>
        map is_open (links s) = [True, False] \<and>
        CloseSerial 0 \<notin> set (trace s) \<and>
        drop 38 (trace s) = [OpenSerial 1 ''/dev/ttyUSB0'', CloseSerial 1])"
  by (simp add: session_def DroneComm_init_def DEFAULT_K_PERIOD_def Let_def MultiWii_def
      reset_channels_Inr exit_Inr reset_events_def)

subsection \<open>Telemetry\<close>

lemma board_getData_None:
  "board s = None \<Longrightarrow> board_getData s = Inl AttributeError"
  by (simp add: board_getData_def)

lemma set_pwidth_board:
  "set_pwidth s c w = Inr s' \<Longrightarrow> board s' = board s"
  by (auto simp add: set_pwidth_def split: if_splits)

lemma reset_channels_board:
  "reset_channels s = Inr s' \<Longrightarrow> board s' = board s"
  by (cases "period s = 0") (auto simp add: reset_channels_Inr reset_channels_Inl)

lemma set_roll_pwidth_board:
  "set_roll_pwidth s w = Inr s' \<Longrightarrow> board s' = board s"
  by (auto simp add: set_roll_pwidth_def warn_def split: prod.splits sum.splits if_splits
      dest: set_pwidth_board)

lemma set_pitch_pwidth_board:
  "set_pitch_pwidth s w = Inr s' \<Longrightarrow> board s' = board s"
  by (auto simp add: set_pitch_pwidth_def warn_def split: prod.splits sum.splits if_splits
      dest: set_pwidth_board)

lemma set_yaw_pwidth_board:
  "set_yaw_pwidth s w = Inr s' \<Longrightarrow> board s' = board s"
  by (auto simp add: set_yaw_pwidth_def warn_def split: prod.splits sum.splits if_splits
      dest: set_pwidth_board)

lemma perform_board_None:
  assumes "perform s c = Inr s'" and "c \<noteq> Exit" and "board s = None"
  shows "board s' = None"
proof (cases c)
  case (Set_roll w)
  with assms show ?thesis by (simp add: set_roll_pwidth_board)
next
  case (Set_pitch w)
  with assms show ?thesis by (simp add: set_pitch_pwidth_board)
next
  case (Set_yaw w)
  with assms show ?thesis by (simp add: set_yaw_pwidth_board)
next
  case Reset
  with assms show ?thesis by (simp add: reset_channels_board)
next
  case (Set_pwidth ch w)
  with assms show ?thesis by (simp add: set_pwidth_board)
next
  case Get_roll
  with assms show ?thesis by (simp add: get_roll_def board_getData_None)
next
  case Get_pitch
  with assms show ?thesis by (simp add: get_pitch_def board_getData_None)
next
  case Get_yaw
  with assms show ?thesis by (simp add: get_yaw_def board_getData_None)
next
  case (Get_data arg)
  with assms show ?thesis by (simp add: get_data_def board_getData_None)
next
  case Exit
  with assms show ?thesis by simp
qed

lemma run_board_None:
  "run s cs = Inr s' \<Longrightarrow> Exit \<notin> set cs \<Longrightarrow> board s = None \<Longrightarrow> board s' = None"
proof (induction cs arbitrary: s)
  case Nil
  then show ?case by simp
next
  case (Cons c cs)
  from Cons.prems(1) obtain s1 where p: "perform s c = Inr s1" and r: "run s1 cs = Inr s'"
    by (auto split: sum.splits)
  from Cons.prems(2) have "c \<noteq> Exit" and n: "Exit \<notin> set cs"
    by auto
  with p Cons.prems(3) have "board s1 = None"
    by (simp add: perform_board_None)
  with r n show ?case
    by (rule Cons.IH)
qed

lemma init_board_None:
  "DroneComm_init env p k r pt y None = Inr s \<Longrightarrow> board s = None"
  by (auto simp add: DroneComm_init_def Let_def split: if_splits dest: reset_channels_board)

text \<open>
  Before \<open>exit\<close>: on an object constructed with no port, every telemetry accessor (\<open>get_roll\<close>,
  \<open>get_pitch\<close>, \<open>get_yaw\<close>, \<open>get_data\<close> with any argument) raises instead of returning a value,
  at any point of a run of calls that has not gone through \<open>exit\<close>. The exception is Python's
  \<^verbatim>\<open>AttributeError\<close> on \<^verbatim>\<open>None\<close>: the failure that the specification names LinkUnavailable.
\<close>

lemma telemetry_without_link:
  assumes "session env p k r pt y None cs = Inr s" and "Exit \<notin> set cs"
  shows "get_roll s = Inl AttributeError \<and> get_pitch s = Inl AttributeError \<and>
         get_yaw s = Inl AttributeError \<and> get_data s arg = Inl AttributeError"
proof -
  from assms(1) obtain s0 where i: "DroneComm_init env p k r pt y None = Inr s0"
    and r: "run s0 cs = Inr s"
    by (auto simp add: session_def split: sum.splits)
  from i have "board s0 = None"
    by (rule init_board_None)
  with r assms(2) have "board s = None"
    by (simp add: run_board_None)
  then show ?thesis
    by (simp add: get_roll_def get_pitch_def get_yaw_def get_data_def board_getData_None)
qed

lemma telemetry_without_link_example:
  "Exit \<notin> set [Set_roll (15 / 10000), Reset] \<and>
   (\<exists>s. session level (22 / 1000) None 0 0 0 None [Set_roll (15 / 10000), Reset] = Inr s \<and>
      get_roll s = Inl AttributeError \<and> get_pitch s = Inl AttributeError \<and>
      get_yaw s = Inl AttributeError \<and> get_data s ''angx'' = Inl AttributeError)"
proof -
  let ?cs = "[Set_roll (15 / 10000), Reset]"
  have n: "Exit \<notin> set ?cs"
    by simp
  obtain s where e: "session level (22 / 1000) None 0 0 0 None ?cs = Inr s"
    by (simp add: session_def DroneComm_init_def DEFAULT_K_PERIOD_def Let_def
        reset_channels_Inr set_roll_pwidth_def set_pwidth_def validate_pwidth_def
        MIN_WIDTH_def MAX_WIDTH_def)
  from telemetry_without_link [OF e n, of "''angx''"] e n show ?thesis
    by blast
qed


text \<open>
  Claim C10. On an object that has a link, \<open>get_data\<close> with an argument other than the three
  field names raises nothing: it fetches the attitude first, prints, closes the serial link and
  returns \<^verbatim>\<open>None\<close>. The object still refers to the same link afterwards, which is now
  closed, so later telemetry calls go to a closed link.
\<close>

theorem get_data_invalid_argument:
  assumes "board s = Some i" and "i < length (links s)"
    and "arg \<noteq> ''angx''" and "arg \<noteq> ''angy''" and "arg \<noteq> ''heading''"
  shows "\<exists>s'. get_data s arg = Inr (s', None) \<and>
           trace s' = trace s @ [GetData i, Print ''Invalid argument\<newline>'', CloseSerial i] \<and>
           board s' = Some i \<and> \<not> is_open (links s' ! i)"
  using assms
  by (simp add: get_data_def board_getData_def board_closeSerial_def warn_def)

theorem get_data_invalid_argument_witness:
  "\<exists>s'. get_data (linked ''/dev/ttyUSB0'') ''roll'' = Inr (s', None) \<and>
     trace s' = [GetData 0, Print ''Invalid argument\<newline>'', CloseSerial 0] \<and>
     board s' = Some 0 \<and> \<not> is_open (links s' ! 0)"
  using get_data_invalid_argument [of "linked ''/dev/ttyUSB0''" 0 "''roll''"]
  by (simp add: linked_def bare_def)

subsection \<open>The range of the widths written\<close>

lemma widths_written_append:
  "widths_written (es @ fs) = widths_written es @ widths_written fs"
  by (induction es rule: widths_written.induct) simp_all

lemma widths_written_reset:
  "widths_written (reset_events s) =
     [MID_WIDTH, MID_WIDTH, MID_WIDTH, MID_WIDTH, MID_WIDTH, MID_WIDTH,
      MID_WIDTH + roll_pwm_trim s, MID_WIDTH + pitch_pwm_trim s, MID_WIDTH + yaw_pwm_trim s]"
  by (simp add: reset_events_def)

lemma in_range_MID: "in_range MID_WIDTH"
  by (simp add: in_range_def MIN_WIDTH_def MID_WIDTH_def MAX_WIDTH_def)

lemma validate_pwidth_in_range:
  "validate_pwidth x = (a, b) \<Longrightarrow> in_range a"
  by (auto simp add: validate_pwidth_def in_range_def MIN_WIDTH_def MAX_WIDTH_def
      split: if_splits)

lemma set_roll_pwidth_safe:
  "set_roll_pwidth s w = Inr s' \<Longrightarrow> safe s \<Longrightarrow> safe s'"
  by (auto simp add: set_roll_pwidth_def set_pwidth_def warn_def safe_def widths_written_append
      split: prod.splits if_splits dest: validate_pwidth_in_range)

lemma set_pitch_pwidth_safe:
  "set_pitch_pwidth s w = Inr s' \<Longrightarrow> safe s \<Longrightarrow> safe s'"
  by (auto simp add: set_pitch_pwidth_def set_pwidth_def warn_def safe_def widths_written_append
      split: prod.splits if_splits dest: validate_pwidth_in_range)

lemma set_yaw_pwidth_safe:
  "set_yaw_pwidth s w = Inr s' \<Longrightarrow> safe s \<Longrightarrow> safe s'"
  by (auto simp add: set_yaw_pwidth_def set_pwidth_def warn_def safe_def widths_written_append
      split: prod.splits if_splits dest: validate_pwidth_in_range)

lemma reset_channels_safe:
  assumes "reset_channels s = Inr s'" and "safe s"
  shows "safe s'"
proof -
  have p: "period s \<noteq> 0"
    using assms(1) reset_channels_Inl [of s] by auto
  from assms(1) have "s' = s\<lparr>trace := trace s @ reset_events s\<rparr>"
    unfolding reset_channels_Inr [OF p] by simp
  with assms(2) show ?thesis
    by (simp add: safe_def widths_written_append widths_written_reset in_range_MID ball_Un)
qed

lemma board_getData_safe:
  "board_getData s = Inr s' \<Longrightarrow> safe s \<Longrightarrow> safe s'"
  by (auto simp add: board_getData_def safe_def widths_written_append split: option.splits)

lemma board_closeSerial_safe:
  "board_closeSerial s = Inr s' \<Longrightarrow> safe s \<Longrightarrow> safe s'"
  by (auto simp add: board_closeSerial_def safe_def widths_written_append split: option.splits)

lemma warn_safe: "safe s \<Longrightarrow> safe (warn s msg)"
  by (simp add: warn_def safe_def widths_written_append)

lemma get_data_safe:
  "get_data s arg = Inr (s', v) \<Longrightarrow> safe s \<Longrightarrow> safe s'"
  by (auto simp add: get_data_def split: sum.splits if_splits
      dest: board_getData_safe board_closeSerial_safe warn_safe)

lemma exit_safe:
  assumes "exit s = Inr s'" and "safe s"
  shows "safe s'"
proof -
  have p: "period s \<noteq> 0"
    using assms(1) exit_Inl [of s] by auto
  from assms(1) have "trace s' = trace s @ reset_events s @
      [OpenSerial (length (links s)) ''/dev/ttyUSB0'', CloseSerial (length (links s))]"
    and "roll_pwm_trim s' = roll_pwm_trim s" and "pitch_pwm_trim s' = pitch_pwm_trim s"
    and "yaw_pwm_trim s' = yaw_pwm_trim s"
    unfolding exit_Inr [OF p] by auto
  with assms(2) show ?thesis
    by (simp add: safe_def widths_written_append widths_written_reset in_range_MID ball_Un)
qed

lemma perform_safe:
  assumes "perform s c = Inr s'" and "\<not> is_raw c" and "safe s"
  shows "safe s'"
proof (cases c)
  case (Set_roll w)
  with assms show ?thesis by (simp add: set_roll_pwidth_safe)
next
  case (Set_pitch w)
  with assms show ?thesis by (simp add: set_pitch_pwidth_safe)
next
  case (Set_yaw w)
  with assms show ?thesis by (simp add: set_yaw_pwidth_safe)
next
  case Reset
  with assms show ?thesis by (simp add: reset_channels_safe)
next
  case (Set_pwidth ch w)
  with assms show ?thesis by simp
next
  case Get_roll
  with assms show ?thesis
    by (auto simp add: get_roll_def split: sum.splits dest: board_getData_safe)
next
  case Get_pitch
  with assms show ?thesis
    by (auto simp add: get_pitch_def split: sum.splits dest: board_getData_safe)
next
  case Get_yaw
  with assms show ?thesis
    by (auto simp add: get_yaw_def split: sum.splits dest: board_getData_safe)
next
  case (Get_data arg)
  with assms show ?thesis
    by (cases "get_data s arg") (auto dest: get_data_safe)
next
  case Exit
  with assms show ?thesis by (simp add: exit_safe)
qed

lemma run_safe:
  "run s cs = Inr s' \<Longrightarrow> \<forall>c \<in> set cs. \<not> is_raw c \<Longrightarrow> safe s \<Longrightarrow> safe s'"
proof (induction cs arbitrary: s)
  case Nil
  then show ?case by simp
next
  case (Cons c cs)
  from Cons.prems(1) obtain s1 where p: "perform s c = Inr s1" and r: "run s1 cs = Inr s'"
    by (auto split: sum.splits)
  from Cons.prems(2) have c: "\<not> is_raw c" and n: "\<forall>c \<in> set cs. \<not> is_raw c"
    by auto
  from p c Cons.prems(3) have "safe s1"
    by (rule perform_safe)
  with r n show ?case
    by (rule Cons.IH)
qed

lemma init_safe:
  assumes "DroneComm_init env p k r pt y port0 = Inr s"
    and "trim_ok r" and "trim_ok pt" and "trim_ok y"
  shows "safe s"
proof -
  let ?k = "case k of None \<Rightarrow> DEFAULT_K_PERIOD | Some k' \<Rightarrow> k'"
  let ?s0 = "\<lparr>period = p, roll_pwm_trim = r * (1 / 1000000),
      pitch_pwm_trim = pt * (1 / 1000000), yaw_pwm_trim = y * (1 / 1000000),
      board = None, links = [], sensor = env, fetches = 0,
      trace = [SetPwmFreq (1 / (?k * p))]\<rparr>"
  have s0: "safe ?s0"
    using assms(2-4) by (simp add: safe_def trim_ok_def)
  show ?thesis
  proof (cases port0)
    case None
    with assms(1) have "reset_channels ?s0 = Inr s"
      by (simp add: DroneComm_init_def Let_def split: if_splits)
    then show ?thesis
      using s0 by (rule reset_channels_safe)
  next
    case (Some q)
    let ?s1 = "?s0\<lparr>links := [\<lparr>port = q, is_open = True,
                                attitude = \<lparr>angx = 0, angy = 0, heading = 0\<rparr>\<rparr>],
                    trace := [SetPwmFreq (1 / (?k * p)), OpenSerial 0 q],
                    board := Some 0\<rparr>"
    from Some assms(1) have "reset_channels ?s1 = Inr s"
      by (simp add: DroneComm_init_def Let_def MultiWii_def split: if_splits)
    moreover have "safe ?s1"
      using assms(2-4) by (simp add: safe_def trim_ok_def)
    ultimately show ?thesis
      by (rule reset_channels_safe)
  qed
qed

text \<open>
  Claim C1 says that every width handed to the hardware conversion lies between \<open>MIN_WIDTH\<close>
  and \<open>MAX_WIDTH\<close>, for every sequence of operations including \<open>set_pwidth\<close> and for every
  trim. \<open>set_pwidth\<close> is the raw write and clamps nothing: called with 5 ms it converts 5 ms.
  \<open>reset_channels\<close> writes the middle position plus the trim unchecked: with a roll trim of
  1000 microseconds the constructor writes 2.5 ms to channel 3.
\<close>

theorem widths_in_range_counterexample:
  "(case session level (22 / 1000) None 0 0 0 None [Set_pwidth 0 (5 / 1000)] of
      Inl e \<Rightarrow> False
    | Inr s \<Rightarrow> last (widths_written (trace s)) = 5 / 1000 \<and> \<not> in_range (5 / 1000) \<and>
        programmed_ticks (trace s) 0 = Some 931) \<and>
   (case session level (22 / 1000) None 1000 0 0 None [] of
      Inl e \<Rightarrow> False
    | Inr s \<Rightarrow> widths_written (trace s) ! 6 = 25 / 10000 \<and> \<not> in_range (25 / 10000) \<and>
        programmed_ticks (trace s) 3 = Some 465)"
  by (simp add: session_def DroneComm_init_def DEFAULT_K_PERIOD_def Let_def
      reset_channels_Inr set_pwidth_def widths_written_append widths_written_reset
      programmed_ticks_append ticks_after_reset programmed_ticks_def
      in_range_def MIN_WIDTH_def MID_WIDTH_def MAX_WIDTH_def pulse_ticks_def py_round_def
      TICKS_def)

text \<open>
  Claim C1, amended. When each trim keeps the trimmed middle position within the range, then
  after construction and any sequence of calls other than a direct \<open>set_pwidth\<close> (the three
  axis commands with any requested width, \<open>reset_channels\<close>, the telemetry accessors, \<open>exit\<close>),
  every width that was handed to the conversion lies between \<open>MIN_WIDTH\<close> and \<open>MAX_WIDTH\<close>.
\<close>

theorem commanded_widths_in_range:
  assumes "session env p k r pt y port0 cs = Inr s"
    and "\<forall>c \<in> set cs. \<not> is_raw c"
    and "trim_ok r" and "trim_ok pt" and "trim_ok y"
  shows "\<forall>w \<in> set (widths_written (trace s)). in_range w"
proof -
  from assms(1) obtain s0 where i: "DroneComm_init env p k r pt y port0 = Inr s0"
    and r: "run s0 cs = Inr s"
    by (auto simp add: session_def split: sum.splits)
  from i assms(3-5) have "safe s0"
    by (rule init_safe)
  with r assms(2) have "safe s"
    by (rule run_safe)
  then show ?thesis
    by (simp add: safe_def)
qed

theorem commanded_widths_in_range_witness:
  "\<not> is_raw (Set_roll (3 / 1000)) \<and> \<not> is_raw (Set_yaw 0) \<and> \<not> is_raw Reset \<and>
   trim_ok 100 \<and> trim_ok (- 400) \<and> trim_ok 0 \<and>
   (\<exists>s. session level (22 / 1000) None 100 (- 400) 0 (Some ''/dev/ttyUSB0'')
           [Set_roll (3 / 1000), Set_yaw 0, Reset] = Inr s \<and>
      (\<forall>w \<in> set (widths_written (trace s)). in_range w) \<and>
      widths_written (trace s) ! 9 = MAX_WIDTH \<and> widths_written (trace s) ! 10 = MIN_WIDTH)"
proof -
  let ?cs = "[Set_roll (3 / 1000), Set_yaw 0, Reset]"
  have n: "\<forall>c \<in> set ?cs. \<not> is_raw c"
    by simp
  have t: "trim_ok 100" "trim_ok (- 400)" "trim_ok 0"
    by (simp_all add: trim_ok_def in_range_def MIN_WIDTH_def MID_WIDTH_def MAX_WIDTH_def)
  have "\<exists>s. session level (22 / 1000) None 100 (- 400) 0 (Some ''/dev/ttyUSB0'') ?cs = Inr s \<and>
      widths_written (trace s) ! 9 = MAX_WIDTH \<and> widths_written (trace s) ! 10 = MIN_WIDTH"
    by (simp add: session_def DroneComm_init_def DEFAULT_K_PERIOD_def Let_def MultiWii_def
        reset_channels_Inr set_roll_pwidth_def set_yaw_pwidth_def set_pwidth_def
        validate_pwidth_def warn_def widths_written_append widths_written_reset
        MIN_WIDTH_def MAX_WIDTH_def)
  then obtain s where
    e: "session level (22 / 1000) None 100 (- 400) 0 (Some ''/dev/ttyUSB0'') ?cs = Inr s"
    and w: "widths_written (trace s) ! 9 = MAX_WIDTH" "widths_written (trace s) ! 10 = MIN_WIDTH"
    by blast
  from commanded_widths_in_range [OF e n t] e t w show ?thesis
    by auto
qed

end
